theory Spec2Isabelle
  imports Complex_Main
begin

section \<open>Numbers and coordinates\<close>

text \<open>
  The component \<^verbatim>\<open>CampusMap\<close> works on JavaScript numbers. A finite number is taken
  here as the real it denotes (the rounding of doubles is not modelled); the values that
  are not finite appear only where the source can produce them (\<^verbatim>\<open>parseFloat\<close>).
\<close>

type_synonym num = real

record 'n latlng =
  lat :: 'n
  lng :: 'n

section \<open>Following the user's position\<close>

text \<open>
  The state the follow logic reads and writes: \<^verbatim>\<open>followUser\<close> (React state, initially
  \<^verbatim>\<open>true\<close>), \<^verbatim>\<open>followRef.current\<close> (copied from \<^verbatim>\<open>followUser\<close> by an effect after every
  render that changed it), \<^verbatim>\<open>userLocation\<close>, whether \<^verbatim>\<open>map.current\<close> is set, and the
  position of the marker held in \<^verbatim>\<open>userMarkerRef.current\<close>.
\<close>

record follow =
  followUser :: bool
  followRef :: bool
  userLocation :: "num latlng option"
  mapReady :: bool
  userMarker :: "(num \<times> num) option"

text \<open>
  The map events \<^verbatim>\<open>initializeMap\<close> subscribes to, the position callback of
  \<^verbatim>\<open>watchPosition\<close> and the click on the "Locate Me" button.
\<close>

datatype interaction = DragStart | ZoomStart | RotateStart | TouchStart

datatype event =
  PositionUpdate "num latlng"
| InteractionStart interaction
| LocateMe

text \<open>What the handlers ask of the map: marker calls and \<^verbatim>\<open>flyTo\<close> (centre lng, lat, zoom).\<close>

datatype instr =
  CreateUserMarker num num
| MoveUserMarker num num
| FlyTo num num nat


text \<open>\<^verbatim>\<open>useEffect(() => { followRef.current = followUser; }, [followUser])\<close>\<close>

definition syncFollowRef :: "follow \<Rightarrow> follow" where
  "syncFollowRef s = s\<lparr>followRef := followUser s\<rparr>"

text \<open>
  The effect on \<^verbatim>\<open>[userLocation]\<close>: with a map and a position it moves the existing
  marker (or creates it), then flies to the position when \<^verbatim>\<open>followRef.current\<close> holds.
\<close>

definition userLocationEffect :: "follow \<Rightarrow> follow \<times> instr list" where
  "userLocationEffect s =
     (case userLocation s of
        None \<Rightarrow> (s, [])
      | Some p \<Rightarrow>
          if \<not> mapReady s then (s, [])
          else
            (s\<lparr>userMarker := Some (lng p, lat p)\<rparr>,
             (case userMarker s of
                Some m \<Rightarrow> [MoveUserMarker (lng p) (lat p)]
              | None \<Rightarrow> [CreateUserMarker (lng p) (lat p)])
             @ (if followRef s then [FlyTo (lng p) (lat p) 17] else [])))"

text \<open>The click handler of the "Locate Me" button.\<close>

definition locateMe :: "follow \<Rightarrow> follow \<times> instr list" where
  "locateMe s =
     (case userLocation s of
        Some p \<Rightarrow>
          if mapReady s then (s\<lparr>followUser := True\<rparr>, [FlyTo (lng p) (lat p) 17])
          else (s, [])
      | None \<Rightarrow> (s, []))"

text \<open>
  One event that is rendered on its own: the handler runs, then the effects whose
  dependency changed, in the order the component declares them (\<^verbatim>\<open>followRef\<close> first).
  A render that commits several events at once is \<open>commit\<close> below; \<open>step\<close> is the
  render of a single event.
\<close>

fun step :: "event \<Rightarrow> follow \<Rightarrow> follow \<times> instr list" where
  "step (PositionUpdate p) s = userLocationEffect (s\<lparr>userLocation := Some p\<rparr>)"
| "step (InteractionStart i) s = (syncFollowRef (s\<lparr>followUser := False\<rparr>), [])"
| "step LocateMe s = (let (s', out) = locateMe s in (syncFollowRef s', out))"

fun run :: "event list \<Rightarrow> follow \<Rightarrow> follow \<times> instr list" where
  "run [] s = (s, [])"
| "run (e # es) s =
     (let (s1, out1) = step e s; (s2, out2) = run es s1 in (s2, out1 @ out2))"



text \<open>
  Renders. React may commit the state updates of several events in one render: the
  handlers of the events run first, each on the state left by the one before, and the
  effects run once, after the commit. The handler of "Locate Me" is a closure of the
  last render: it sees the \<^verbatim>\<open>userLocation\<close> of that render, \<open>r\<close>, while \<^verbatim>\<open>map.current\<close> is a
  reference.
\<close>

fun handle :: "follow \<Rightarrow> event \<Rightarrow> follow \<Rightarrow> follow \<times> instr list" where
  "handle r (PositionUpdate p) s = (s\<lparr>userLocation := Some p\<rparr>, [])"
| "handle r (InteractionStart i) s = (s\<lparr>followUser := False\<rparr>, [])"
| "handle r LocateMe s =
     (case userLocation r of
        Some p \<Rightarrow>
          if mapReady r then (s\<lparr>followUser := True\<rparr>, [FlyTo (lng p) (lat p) 17])
          else (s, [])
      | None \<Rightarrow> (s, []))"

fun handlers :: "follow \<Rightarrow> event list \<Rightarrow> follow \<Rightarrow> follow \<times> instr list" where
  "handlers r [] s = (s, [])"
| "handlers r (e # es) s =
     (let (s1, out1) = handle r e s; (s2, out2) = handlers r es s1 in (s2, out1 @ out2))"

definition isPosition :: "event \<Rightarrow> bool" where
  "isPosition e = (case e of PositionUpdate p \<Rightarrow> True | _ \<Rightarrow> False)"


text \<open>
  One render for a batch of events: after the handlers, the effect on \<^verbatim>\<open>[followUser]\<close>
  runs when \<^verbatim>\<open>followUser\<close> differs from the last render, and then the effect on
  \<^verbatim>\<open>[userLocation]\<close> runs when a position came in (every position is a new object); it
  sees the last position of the batch and the reference as the first effect left it.
\<close>

definition commit :: "event list \<Rightarrow> follow \<Rightarrow> follow \<times> instr list" where
  "commit b s =
     (let (s1, out1) = handlers s b s;
          s2 = (if followUser s1 \<noteq> followUser s then syncFollowRef s1 else s1);
          (s3, out3) = (if list_ex isPosition b then userLocationEffect s2 else (s2, []))
      in (s3, out1 @ out3))"

fun runBatches :: "event list list \<Rightarrow> follow \<Rightarrow> follow \<times> instr list" where
  "runBatches [] s = (s, [])"
| "runBatches (b # bs) s =
     (let (s1, out1) = commit b s; (s2, out2) = runBatches bs s1 in (s2, out1 @ out2))"



section \<open>Directions requests and travel times\<close>

text \<open>
  A request to the directions service is the URL the source builds: the profile, both
  end points and the access token. What comes back is modelled as one of three
  outcomes: \<^verbatim>\<open>fetch\<close> or \<^verbatim>\<open>res.json()\<close> throws, the answer has no first route, or
  \<^verbatim>\<open>data.routes[0]\<close> with its duration in seconds and its line of [lng, lat] pairs.
\<close>

record request =
  rqProfile :: string
  rqFrom :: "num latlng"
  rqTo :: "num latlng"
  rqToken :: string

record route =
  seconds :: num
  geometry :: "(num \<times> num) list"

datatype response = Throws | NoRoute | Routes route

type_synonym backend = "request \<Rightarrow> response"

text \<open>The order in which requests are issued and settle is kept as a trace.\<close>

datatype netEvent = Issued request | Settled request response

record entry =
  label :: string
  duration :: "int option"

definition directionsRequest :: "string \<Rightarrow> num latlng \<Rightarrow> num latlng \<Rightarrow> string \<Rightarrow> request" where
  "directionsRequest profile orig dest tok =
     \<lparr>rqProfile = profile, rqFrom = orig, rqTo = dest, rqToken = tok\<rparr>"

text \<open>\<^verbatim>\<open>Math.round\<close> on a finite number: the nearest integer, halves upwards.\<close>

definition mathRound :: "num \<Rightarrow> int" where
  "mathRound x = \<lfloor>x + 1 / 2\<rfloor>"

definition modes :: "(string \<times> string) list" where
  "modes = [(''walking'', ''Walk''), (''cycling'', ''Cycle''), (''driving'', ''Drive'')]"

definition modeEntry :: "string \<Rightarrow> response \<Rightarrow> entry" where
  "modeEntry lab r =
     (case r of
        Routes rt \<Rightarrow> \<lparr>label = lab, duration = Some (mathRound (seconds rt / 60))\<rparr>
      | NoRoute \<Rightarrow> \<lparr>label = lab, duration = None\<rparr>
      | Throws \<Rightarrow> \<lparr>label = lab, duration = None\<rparr>)"

text \<open>
  The loop \<^verbatim>\<open>for (const mode of modes)\<close> of \<^verbatim>\<open>getTravelTimes\<close>: each turn awaits its own
  \<^verbatim>\<open>fetch\<close> inside \<^verbatim>\<open>try\<close> and pushes one entry, whatever the outcome.
\<close>

fun travelLoop ::
  "backend \<Rightarrow> num latlng \<Rightarrow> num latlng \<Rightarrow> string \<Rightarrow> (string \<times> string) list \<Rightarrow>
   netEvent list \<times> entry list \<Rightarrow> netEvent list \<times> entry list" where
  "travelLoop be orig dest tok [] acc = acc"
| "travelLoop be orig dest tok ((profile, lab) # ms) (tr, results) =
     (let rq = directionsRequest profile orig dest tok; r = be rq
      in travelLoop be orig dest tok ms
           (tr @ [Issued rq, Settled rq r], results @ [modeEntry lab r]))"

definition getTravelTimes ::
  "backend \<Rightarrow> string \<Rightarrow> num latlng \<Rightarrow> num latlng \<Rightarrow> netEvent list \<times> entry list option" where
  "getTravelTimes be tok orig dest =
     (if tok = [] then ([], None)
      else (let (tr, results) = travelLoop be orig dest tok modes ([], [])
            in (tr, Some results)))"

section \<open>Markers and clusters\<close>

text \<open>
  A feature returned by \<^verbatim>\<open>getClusters\<close>: a cluster (\<^verbatim>\<open>cluster_id\<close>, \<^verbatim>\<open>point_count\<close>) or one
  of the loaded points (\<^verbatim>\<open>locationId\<close>, \<^verbatim>\<open>name\<close>, \<^verbatim>\<open>category\<close>), each with its [lng, lat].
\<close>

datatype node =
  Cluster nat nat "num \<times> num"
| Leaf string string string "num \<times> num"

definition categoryColors :: "string \<Rightarrow> string option" where
  "categoryColors =
     map_of
       [(''academic'', ''hsl(var(--campus-blue))''),
        (''student-services'', ''hsl(var(--campus-orange))''),
        (''dining'', ''hsl(var(--campus-orange))''),
        (''housing'', ''hsl(var(--campus-green))''),
        (''recreation'', ''hsl(var(--campus-purple))''),
        (''administrative'', ''hsl(var(--campus-blue))''),
        (''services'', ''hsl(var(--campus-green))'')]"

text \<open>
  A marker on the map. Every \<^verbatim>\<open>new mapboxgl.Marker(...)\<close> makes a new object; its identity
  is a handle taken from a counter. The rest is what the source puts into the marker: the
  feature it shows, its position, the size of its circle, the label (none on a narrow
  screen, and none on a cluster, whose text is the count) and the colour of the blip.
\<close>

record marker =
  mkHandle :: nat
  mkNode :: node
  mkLngLat :: "num \<times> num"
  mkSize :: nat
  mkLabel :: "string option"
  mkColor :: "string option"

definition markerOf :: "bool \<Rightarrow> nat \<Rightarrow> node \<Rightarrow> marker" where
  "markerOf isMobile h n =
     (case n of
        Cluster cid cnt pos \<Rightarrow>
          \<lparr>mkHandle = h, mkNode = n, mkLngLat = pos, mkSize = (if isMobile then 30 else 40),
           mkLabel = None, mkColor = Some ''#6366f1''\<rparr>
      | Leaf lid nm cat pos \<Rightarrow>
          \<lparr>mkHandle = h, mkNode = n, mkLngLat = pos, mkSize = (if isMobile then 20 else 28),
           mkLabel = (if isMobile then None else Some nm), mkColor = categoryColors cat\<rparr>)"

text \<open>\<^verbatim>\<open>clusters.forEach\<close>: one new marker for each feature, in the order of the features.\<close>

fun newMarkers :: "bool \<Rightarrow> nat \<Rightarrow> node list \<Rightarrow> marker list" where
  "newMarkers isMobile h [] = []"
| "newMarkers isMobile h (n # ns) = markerOf isMobile h n # newMarkers isMobile (Suc h) ns"

datatype markerOp = RemoveMarker marker | AddMarker marker

text \<open>
  The map as this component uses it: the style's layers and sources by id, and the
  markers attached to it.
\<close>

record layer =
  layerType :: string
  layerSource :: string
  lineJoin :: string
  lineCap :: string
  lineColor :: string
  lineWidth :: nat
  lineOpacity :: num

record mapState =
  layers :: "string \<rightharpoonup> layer"
  sources :: "string \<rightharpoonup> (num \<times> num) list"
  attached :: "marker list"

record markerState =
  mapCurrent :: "mapState option"
  markersRef :: "marker list"
  clusters :: "node list"
  nextHandle :: nat

text \<open>
  The effect on \<^verbatim>\<open>[supercluster, mapBounds, locations]\<close>. The index is the object of the
  clustering library; only its query \<^verbatim>\<open>getClusters(bbox, zoom)\<close> is used, and it is a
  parameter here. The zoom of the map is rounded before the query.
\<close>

definition detachAll :: "marker list \<Rightarrow> marker list \<Rightarrow> marker list" where
  "detachAll ms onMap = foldl (\<lambda>acc m. remove1 m acc) onMap ms"

definition updateClusters ::
  "(num list \<Rightarrow> int \<Rightarrow> node list) option \<Rightarrow> num list \<Rightarrow> num \<Rightarrow> bool \<Rightarrow> markerState \<Rightarrow>
   markerState \<times> markerOp list" where
  "updateClusters supercluster mapBounds zoom isMobile s =
     (case (mapCurrent s, supercluster) of
        (Some m, Some getClusters) \<Rightarrow>
          if mapBounds = [] then (s, [])
          else
            (let old = markersRef s;
                 found = getClusters mapBounds (mathRound zoom);
                 new = newMarkers isMobile (nextHandle s) found
             in (\<lparr>mapCurrent = Some (m\<lparr>attached := detachAll old (attached m) @ new\<rparr>),
                  markersRef = new, clusters = found,
                  nextHandle = nextHandle s + length found\<rparr>,
                 map RemoveMarker old @ map AddMarker new))
      | _ \<Rightarrow> (s, []))"

text \<open>
  The key under which the specification identifies a rendered marker: the location id of
  a point, or a key made from the cluster id.
\<close>

datatype markerKey = LocationKey string | ClusterKey nat

definition nodeKey :: "node \<Rightarrow> markerKey" where
  "nodeKey n = (case n of Cluster cid cnt pos \<Rightarrow> ClusterKey cid | Leaf lid nm cat pos \<Rightarrow> LocationKey lid)"

definition markerKeyOf :: "marker \<Rightarrow> markerKey" where
  "markerKeyOf m = nodeKey (mkNode m)"

section \<open>Drawing the route\<close>

record bounds =
  sw :: "num \<times> num"
  ne :: "num \<times> num"

datatype mapOp =
  RemoveLayer string
| RemoveSource string
| AddSource string "(num \<times> num) list"
| AddLayer string layer
| FitBounds "bounds option" nat

text \<open>\<^verbatim>\<open>bounds.extend(coord)\<close>: the smallest box holding the box and the point.\<close>

definition boundsExtend :: "bounds \<Rightarrow> num \<times> num \<Rightarrow> bounds" where
  "boundsExtend b c =
     \<lparr>sw = (min (fst (sw b)) (fst c), min (snd (sw b)) (snd c)),
      ne = (max (fst (ne b)) (fst c), max (snd (ne b)) (snd c))\<rparr>"

text \<open>
  \<^verbatim>\<open>coordinates.reduce((bounds, coord) => bounds.extend(coord),
  new LngLatBounds(coordinates[0], coordinates[0]))\<close>. With no coordinate the start value
  is the box of two undefined corners, the empty box, written \<open>None\<close>.
\<close>

definition routeBounds :: "(num \<times> num) list \<Rightarrow> bounds option" where
  "routeBounds cs =
     (case cs of
        [] \<Rightarrow> None
      | c # rest \<Rightarrow> Some (foldl boundsExtend \<lparr>sw = c, ne = c\<rparr> cs))"

definition routeLayer :: layer where
  "routeLayer =
     \<lparr>layerType = ''line'', layerSource = ''route'', lineJoin = ''round'', lineCap = ''round'',
      lineColor = ''#3b82f6'', lineWidth = 6, lineOpacity = 8 / 10\<rparr>"

text \<open>The \<^verbatim>\<open>then\<close> callback of \<^verbatim>\<open>drawRoute\<close> on an answer with a first route.\<close>

definition replaceRoute :: "route \<Rightarrow> mapState \<Rightarrow> mapState \<times> mapOp list" where
  "replaceRoute rt m =
     (let ops1 = (if layers m ''route'' \<noteq> None then [RemoveLayer ''route''] else []);
          m1 = m\<lparr>layers := (layers m)(''route'' := None)\<rparr>;
          ops2 = (if sources m1 ''route'' \<noteq> None then [RemoveSource ''route''] else []);
          m2 = m1\<lparr>sources := (sources m1)(''route'' := None)\<rparr>;
          m3 = m2\<lparr>sources := (sources m2)(''route'' \<mapsto> geometry rt)\<rparr>;
          m4 = m3\<lparr>layers := (layers m3)(''route'' \<mapsto> routeLayer)\<rparr>
      in (m4,
          ops1 @ ops2 @
          [AddSource ''route'' (geometry rt), AddLayer ''route'' routeLayer,
           FitBounds (routeBounds (geometry rt)) 50]))"

text \<open>
  \<^verbatim>\<open>drawRoute(from, to)\<close>: nothing without a map or a token; else one request with the
  driving profile, and the overlay is replaced when the answer holds a route. A request
  that throws is logged by the \<^verbatim>\<open>catch\<close> and changes nothing.
\<close>

definition drawRoute ::
  "backend \<Rightarrow> string \<Rightarrow> mapState option \<Rightarrow> num latlng \<Rightarrow> num latlng \<Rightarrow>
   mapState option \<times> netEvent list \<times> mapOp list" where
  "drawRoute be tok mp orig dest =
     (case mp of
        None \<Rightarrow> (None, [], [])
      | Some m \<Rightarrow>
          if tok = [] then (Some m, [], [])
          else
            (let rq = directionsRequest ''driving'' orig dest tok; r = be rq
             in case r of
                  Routes rt \<Rightarrow>
                    (let (m', ops) = replaceRoute rt m
                     in (Some m', [Issued rq, Settled rq r], ops))
                | NoRoute \<Rightarrow> (Some m, [Issued rq, Settled rq r], [])
                | Throws \<Rightarrow> (Some m, [Issued rq, Settled rq r], [])))"

section \<open>Get Directions\<close>

record campusLocation =
  locId :: string
  locName :: string
  category :: string
  latitude :: num
  longitude :: num
  description :: "string option"

record toast =
  toastTitle :: string
  toastDescription :: string
  toastDuration :: nat

text \<open>The decimal digits of the whole number of minutes, as a template literal prints it.\<close>

fun showNat :: "nat \<Rightarrow> string" where
  "showNat n =
     (if n < 10 then [''0123456789'' ! n]
      else showNat (n div 10) @ [''0123456789'' ! (n mod 10)])"

declare showNat.simps [simp del]

definition showInt :: "int \<Rightarrow> string" where
  "showInt i = (if i < 0 then CHR ''-'' # showNat (nat (- i)) else showNat (nat i))"

definition showEntry :: "entry \<Rightarrow> string" where
  "showEntry t =
     label t @ '': '' @
     (case duration t of Some d \<Rightarrow> showInt d @ '' min'' | None \<Rightarrow> ''N/A'')"

fun joinWith :: "string \<Rightarrow> string list \<Rightarrow> string" where
  "joinWith sep [] = []"
| "joinWith sep [x] = x"
| "joinWith sep (x # y # ys) = x @ sep @ joinWith sep (y # ys)"

definition travelTimesToast :: "entry list \<Rightarrow> toast" where
  "travelTimesToast results =
     \<lparr>toastTitle = ''Estimated Travel Times'',
      toastDescription = joinWith '' | '' (map showEntry results),
      toastDuration = 7000\<rparr>"

definition directionsToast :: toast where
  "directionsToast =
     \<lparr>toastTitle = ''Directions'',
      toastDescription = ''Opening directions in Google Maps'',
      toastDuration = 3000\<rparr>"

text \<open>
  What one click on "Get Directions" does: the map after \<^verbatim>\<open>drawRoute\<close>, the requests of
  \<^verbatim>\<open>drawRoute\<close> and of \<^verbatim>\<open>getTravelTimes\<close>, the calls on the map, the toasts shown and the
  destinations opened in the external map application (latitude, longitude).
\<close>

record directions =
  dirMap :: "mapState option"
  routeRequests :: "netEvent list"
  timeRequests :: "netEvent list"
  dirOps :: "mapOp list"
  toasts :: "toast list"
  opened :: "(num \<times> num) list"

definition handleGetDirections ::
  "backend \<Rightarrow> string \<Rightarrow> num latlng option \<Rightarrow> mapState option \<Rightarrow> campusLocation \<Rightarrow> directions" where
  "handleGetDirections be tok userLoc mp location =
     (case (userLoc, mp) of
        (Some u, Some m) \<Rightarrow>
          (let dest = \<lparr>lat = latitude location, lng = longitude location\<rparr>;
               (mp', rtr, ops) = drawRoute be tok mp u dest;
               (ttr, results) = getTravelTimes be tok u dest
           in \<lparr>dirMap = mp', routeRequests = rtr, timeRequests = ttr, dirOps = ops,
                toasts = (case results of Some ts \<Rightarrow> [travelTimesToast ts] | None \<Rightarrow> []),
                opened = []\<rparr>)
      | _ \<Rightarrow>
          \<lparr>dirMap = mp, routeRequests = [], timeRequests = [], dirOps = [],
           toasts = [directionsToast],
           opened = [(latitude location, longitude location)]\<rparr>)"

section \<open>Building the cluster index\<close>







section \<open>The shared location of a link\<close>

text \<open>
  What \<^verbatim>\<open>parseFloat\<close> can return: not a number, an infinity (with its sign: \<open>True\<close> is
  negative) or a finite number.
\<close>

datatype jsnum = NaN | Infinity bool | Finite num

definition isFinite :: "jsnum \<Rightarrow> bool" where
  "isFinite x = (case x of Finite v \<Rightarrow> True | _ \<Rightarrow> False)"

definition isWhite :: "char \<Rightarrow> bool" where
  "isWhite c = (c \<in> set [CHR '' '', CHR 0x09, CHR 0x0A, CHR 0x0B, CHR 0x0C, CHR 0x0D])"

definition isDigit :: "char \<Rightarrow> bool" where
  "isDigit c = (c \<in> set ''0123456789'')"

definition digitsVal :: "string \<Rightarrow> nat" where
  "digitsVal ds = foldl (\<lambda>a c. 10 * a + (of_char c - 48)) 0 ds"

text \<open>The exponent part of a decimal literal: it counts only with a digit after \<^verbatim>\<open>e\<close>.\<close>

definition exponentPart :: "string \<Rightarrow> int" where
  "exponentPart r =
     (case r of
        [] \<Rightarrow> 0
      | c # r' \<Rightarrow>
          if c = CHR ''e'' \<or> c = CHR ''E'' then
            (case r' of
               [] \<Rightarrow> 0
             | d # r'' \<Rightarrow>
                 if d = CHR ''-'' then - int (digitsVal (takeWhile isDigit r''))
                 else if d = CHR ''+'' then int (digitsVal (takeWhile isDigit r''))
                 else int (digitsVal (takeWhile isDigit r')))
          else 0)"

text \<open>
  \<^verbatim>\<open>parseFloat\<close>, the built-in: leading white space is skipped (the ASCII white space
  here), then the longest prefix that is a decimal literal is read: a sign, then
  \<^verbatim>\<open>Infinity\<close> or digits with an optional fraction and exponent. No such prefix gives
  \<^verbatim>\<open>NaN\<close>. A magnitude that rounds beyond the largest double gives an infinity.
\<close>

definition parseFloat :: "string \<Rightarrow> jsnum" where
  "parseFloat s =
     (let t = dropWhile isWhite s;
          neg = (case t of [] \<Rightarrow> False | c # r \<Rightarrow> c = CHR ''-'');
          u = (case t of [] \<Rightarrow> [] | c # r \<Rightarrow> if c = CHR ''+'' \<or> c = CHR ''-'' then r else t)
      in if take 8 u = ''Infinity'' then Infinity neg
         else
           (let ip = takeWhile isDigit u;
                r1 = dropWhile isDigit u;
                fp = (case r1 of [] \<Rightarrow> [] | c # r \<Rightarrow> if c = CHR ''.'' then takeWhile isDigit r else []);
                r2 = (case r1 of [] \<Rightarrow> [] | c # r \<Rightarrow> if c = CHR ''.'' then dropWhile isDigit r else r1)
            in if ip = [] \<and> fp = [] then NaN
               else
                 (let m = real (digitsVal (ip @ fp)) / 10 ^ length fp;
                      e = exponentPart r2;
                      v = (if 0 \<le> e then m * 10 ^ nat e else m / 10 ^ nat (- e))
                  in if 2 ^ 1024 - 2 ^ 970 \<le> v then Infinity neg
                     else Finite (if neg then - v else v))))"

text \<open>
  The effect that reads the link once: \<^verbatim>\<open>params.get\<close> gives the first value of a name, or
  \<^verbatim>\<open>null\<close>; the test \<^verbatim>\<open>lat && lng\<close> holds when both are strings and neither is empty.
\<close>

definition paramsGet :: "(string \<times> string) list \<Rightarrow> string \<Rightarrow> string option" where
  "paramsGet params k = map_of params k"

definition sharedFromUrl :: "(string \<times> string) list \<Rightarrow> jsnum latlng option" where
  "sharedFromUrl params =
     (case (paramsGet params ''sharedLat'', paramsGet params ''sharedLng'') of
        (Some a, Some b) \<Rightarrow>
          if a \<noteq> [] \<and> b \<noteq> [] then Some \<lparr>lat = parseFloat a, lng = parseFloat b\<rparr>
          else None
      | _ \<Rightarrow> None)"

datatype sharedOp =
  AddSharedMarker jsnum jsnum
| FitBoundsTo "jsnum \<times> jsnum" "jsnum \<times> jsnum" nat
| FlyToShared jsnum jsnum nat

text \<open>The effect on \<^verbatim>\<open>[sharedLocation, userLocation]\<close> that shows the shared location.\<close>

definition showShared :: "bool \<Rightarrow> jsnum latlng option \<Rightarrow> num latlng option \<Rightarrow> sharedOp list" where
  "showShared ready sharedLocation userLoc =
     (case sharedLocation of
        None \<Rightarrow> []
      | Some sl \<Rightarrow>
          if \<not> ready then []
          else
            AddSharedMarker (lng sl) (lat sl) #
            (case userLoc of
               Some u \<Rightarrow> [FitBoundsTo (Finite (lng u), Finite (lat u)) (lng sl, lat sl) 80]
             | None \<Rightarrow> [FlyToShared (lng sl) (lat sl) 17]))"

definition isSharedMarker :: "sharedOp \<Rightarrow> bool" where
  "isSharedMarker x = (case x of AddSharedMarker a b \<Rightarrow> True | _ \<Rightarrow> False)"

section \<open>Sample inputs\<close>

text \<open>
  Concrete inputs on which the results below are evaluated: a directions service whose
  cycling request throws while the others answer with a route of 630 seconds, an index
  that answers every query with the same features, one location of the catalogue shown
  as a marker, a map with a route already drawn, and a location whose latitude is out of
  range, with a loader for the index that validates nothing.
\<close>

definition sampleRoute :: route where
  "sampleRoute = \<lparr>seconds = 630, geometry = [(0, 0), (2, 1), (1, 3)]\<rparr>"

definition sampleBackend :: backend where
  "sampleBackend rq = (if rqProfile rq = ''cycling'' then Throws else Routes sampleRoute)"

definition fixedIndex :: "node list \<Rightarrow> num list \<Rightarrow> int \<Rightarrow> node list" where
  "fixedIndex ns bbox z = ns"

definition mainLibrary :: node where
  "mainLibrary = Leaf ''1'' ''Main Library'' ''academic'' (- 739851 / 10000, 407589 / 10000)"

definition libraryShown :: markerState where
  "libraryShown =
     \<lparr>mapCurrent =
        Some \<lparr>layers = Map.empty, sources = Map.empty, attached = [markerOf False 0 mainLibrary]\<rparr>,
      markersRef = [markerOf False 0 mainLibrary], clusters = [mainLibrary], nextHandle = 1\<rparr>"

definition routedMap :: mapState where
  "routedMap =
     \<lparr>layers = [''route'' \<mapsto> routeLayer], sources = [''route'' \<mapsto> [(5, 5), (6, 6)]],
      attached = [markerOf False 0 mainLibrary]\<rparr>"

definition farNorth :: campusLocation where
  "farNorth =
     \<lparr>locId = ''13'', locName = ''Far North'', category = ''academic'',
      latitude = 200, longitude = - 739851 / 10000, description = None\<rparr>"


text \<open>
  Requests that run concurrently are all issued before the first of them settles: in
  the trace no request is issued after an answer has arrived.
\<close>

definition isSettled :: "netEvent \<Rightarrow> bool" where
  "isSettled e = (case e of Settled rq r \<Rightarrow> True | Issued rq \<Rightarrow> False)"

fun allIssuedFirst :: "netEvent list \<Rightarrow> bool" where
  "allIssuedFirst [] = True"
| "allIssuedFirst (Issued rq # es) = allIssuedFirst es"
| "allIssuedFirst (Settled rq r # es) = list_all isSettled es"

section \<open>The follow state\<close>






text \<open>
  The reference read by the position effect always agrees with the state: every step
  that changes \<^verbatim>\<open>followUser\<close> is followed by the effect that copies it.
\<close>

lemma step_followRef:
  "followRef s = followUser s \<Longrightarrow> followRef (fst (step e s)) = followUser (fst (step e s))"
  by (cases e) (auto simp: userLocationEffect_def syncFollowRef_def locateMe_def split: option.splits)

lemma run_followRef:
  "followRef s = followUser s \<Longrightarrow> followRef (fst (run es s)) = followUser (fst (run es s))"
proof (induction es arbitrary: s)
  case Nil
  then show ?case by simp
next
  case (Cons e es)
  from Cons.prems have "followRef (fst (step e s)) = followUser (fst (step e s))"
    by (rule step_followRef)
  then have "followRef (fst (run es (fst (step e s)))) = followUser (fst (run es (fst (step e s))))"
    by (rule Cons.IH)
  then show ?case by (simp add: split_def Let_def)
qed




text \<open>
  Renders of several events. A batch without a "Locate Me" request only overwrites the
  two pieces of state; its render then flies to the last position of the batch when
  the state is still Following and a position came in.
\<close>

lemma isPosition_simps:
  "isPosition (PositionUpdate p)" "\<not> isPosition (InteractionStart i)" "\<not> isPosition LocateMe"
  by (simp_all add: isPosition_def)






text \<open>The render of a single event is \<open>step\<close>, and a run of such renders is \<open>run\<close>.\<close>

lemma commit_single:
  "followRef s = followUser s \<Longrightarrow> commit [e] s = step e s"
  by (cases e)
     (auto simp: commit_def Let_def isPosition_simps syncFollowRef_def locateMe_def
           split: option.splits)

lemma runBatches_single:
  "followRef s = followUser s \<Longrightarrow> runBatches (map (\<lambda>e. [e]) es) s = run es s"
proof (induction es arbitrary: s)
  case Nil
  show ?case by simp
next
  case (Cons e es)
  from Cons.prems have "followRef (fst (step e s)) = followUser (fst (step e s))"
    by (rule step_followRef)
  then have "runBatches (map (\<lambda>e. [e]) es) (fst (step e s)) = run es (fst (step e s))"
    by (rule Cons.IH)
  then show ?case
    by (simp add: commit_single [OF Cons.prems] split_def Let_def)
qed






section \<open>Travel times\<close>

lemma travelLoop_eq:
  "travelLoop be orig dest tok ms (tr, rs) =
     (tr @ concat (map (\<lambda>(p, l). [Issued (directionsRequest p orig dest tok),
                                   Settled (directionsRequest p orig dest tok)
                                     (be (directionsRequest p orig dest tok))]) ms),
      rs @ map (\<lambda>(p, l). modeEntry l (be (directionsRequest p orig dest tok))) ms)"
  by (induction ms arbitrary: tr rs) (auto simp: Let_def)

lemma getTravelTimes_results:
  "tok \<noteq> [] \<Longrightarrow>
   snd (getTravelTimes be tok orig dest) =
     Some (map (\<lambda>(p, l). modeEntry l (be (directionsRequest p orig dest tok))) modes)"
  by (simp add: getTravelTimes_def travelLoop_eq)

lemma getTravelTimes_trace:
  "tok \<noteq> [] \<Longrightarrow>
   fst (getTravelTimes be tok orig dest) =
     concat (map (\<lambda>(p, l). [Issued (directionsRequest p orig dest tok),
                              Settled (directionsRequest p orig dest tok)
                                (be (directionsRequest p orig dest tok))]) modes)"
  by (simp add: getTravelTimes_def travelLoop_eq)

text \<open>
  C4. With a token, when the request of one profile \<open>p\<close> throws and the requests of the
  other two profiles answer with routes, \<^verbatim>\<open>getTravelTimes\<close> resolves with exactly three
  entries, Walk, Cycle and Drive in this order; the entry of \<open>p\<close> has duration
  \<^verbatim>\<open>null\<close>, and each other entry is the rounded minutes of its own route, whatever
  happened to \<open>p\<close>.
\<close>

theorem getTravelTimes_one_failure:
  assumes tok: "tok \<noteq> []"
    and p: "p \<in> {''walking'', ''cycling'', ''driving''}"
    and fails: "be (directionsRequest p orig dest tok) = Throws"
    and others: "\<forall>q \<in> {''walking'', ''cycling'', ''driving''}.
                   q \<noteq> p \<longrightarrow> be (directionsRequest q orig dest tok) = Routes (rt q)"
  shows "snd (getTravelTimes be tok orig dest) =
           Some [\<lparr>label = ''Walk'',
                  duration = (if p = ''walking'' then None
                              else Some (mathRound (seconds (rt ''walking'') / 60)))\<rparr>,
                 \<lparr>label = ''Cycle'',
                  duration = (if p = ''cycling'' then None
                              else Some (mathRound (seconds (rt ''cycling'') / 60)))\<rparr>,
                 \<lparr>label = ''Drive'',
                  duration = (if p = ''driving'' then None
                              else Some (mathRound (seconds (rt ''driving'') / 60)))\<rparr>]"
proof -
  have entry: "modeEntry l (be (directionsRequest q orig dest tok)) =
          \<lparr>label = l, duration = (if p = q then None else Some (mathRound (seconds (rt q) / 60)))\<rparr>"
    if "q \<in> {''walking'', ''cycling'', ''driving''}" for q l
  proof (cases "p = q")
    case True
    then show ?thesis using fails by (simp add: modeEntry_def)
  next
    case False
    from others that have "q \<noteq> p \<longrightarrow> be (directionsRequest q orig dest tok) = Routes (rt q)"
      by (rule bspec)
    with False have "be (directionsRequest q orig dest tok) = Routes (rt q)"
      by simp
    with False show ?thesis by (simp add: modeEntry_def)
  qed
  have "snd (getTravelTimes be tok orig dest) =
          Some [modeEntry ''Walk'' (be (directionsRequest ''walking'' orig dest tok)),
                modeEntry ''Cycle'' (be (directionsRequest ''cycling'' orig dest tok)),
                modeEntry ''Drive'' (be (directionsRequest ''driving'' orig dest tok))]"
    using tok by (simp add: getTravelTimes_results modes_def)
  also have "modeEntry ''Walk'' (be (directionsRequest ''walking'' orig dest tok)) =
      \<lparr>label = ''Walk'', duration = (if p = ''walking'' then None
                              else Some (mathRound (seconds (rt ''walking'') / 60)))\<rparr>"
    by (rule entry) simp
  also have "modeEntry ''Cycle'' (be (directionsRequest ''cycling'' orig dest tok)) =
      \<lparr>label = ''Cycle'', duration = (if p = ''cycling'' then None
                              else Some (mathRound (seconds (rt ''cycling'') / 60)))\<rparr>"
    by (rule entry) simp
  also have "modeEntry ''Drive'' (be (directionsRequest ''driving'' orig dest tok)) =
      \<lparr>label = ''Drive'', duration = (if p = ''driving'' then None
                              else Some (mathRound (seconds (rt ''driving'') / 60)))\<rparr>"
    by (rule entry) simp
  finally show ?thesis .
qed

text \<open>
  C4 on the sample service, whose cycling request throws: 630 seconds are 10.5 minutes,
  rounded to 11.
\<close>

theorem getTravelTimes_one_failure_witness:
  "snd (getTravelTimes sampleBackend ''pk.token'' \<lparr>lat = 1, lng = 2\<rparr> \<lparr>lat = 3, lng = 4\<rparr>) =
     Some [\<lparr>label = ''Walk'', duration = Some 11\<rparr>,
           \<lparr>label = ''Cycle'', duration = None\<rparr>,
           \<lparr>label = ''Drive'', duration = Some 11\<rparr>]"
proof -
  have tok: "''pk.token'' \<noteq> []" by simp
  have p: "''cycling'' \<in> {''walking'', ''cycling'', ''driving''}" by simp
  have fails:
    "sampleBackend (directionsRequest ''cycling'' \<lparr>lat = 1, lng = 2\<rparr> \<lparr>lat = 3, lng = 4\<rparr> ''pk.token'')
       = Throws"
    by (simp add: sampleBackend_def directionsRequest_def)
  have others:
    "\<forall>q \<in> {''walking'', ''cycling'', ''driving''}. q \<noteq> ''cycling'' \<longrightarrow>
       sampleBackend (directionsRequest q \<lparr>lat = 1, lng = 2\<rparr> \<lparr>lat = 3, lng = 4\<rparr> ''pk.token'')
         = Routes ((\<lambda>q. sampleRoute) q)"
    by (simp add: sampleBackend_def directionsRequest_def)
  show ?thesis
    using getTravelTimes_one_failure [OF tok p fails others]
    by (simp add: sampleRoute_def mathRound_def)
qed

text \<open>
  C7, as stated, fails: the loop awaits each \<^verbatim>\<open>fetch\<close> before the next turn, so the
  cycling request is issued only after the walking request has settled. On the sample
  service the trace is not one of concurrent requests.
\<close>

theorem getTravelTimes_not_concurrent:
  "\<not> allIssuedFirst
       (fst (getTravelTimes sampleBackend ''pk.token'' \<lparr>lat = 1, lng = 2\<rparr> \<lparr>lat = 3, lng = 4\<rparr>))"
  by (simp add: getTravelTimes_def modes_def Let_def isSettled_def)

text \<open>
  C7, amended. With a token, the three requests of one \<^verbatim>\<open>getTravelTimes\<close> call run one
  after the other, walking, cycling, driving, each issued only when the one before has
  settled, by success or by failure; a failure does not keep the later requests from
  being issued, and the call resolves after the third has settled, with one entry for
  each profile.
\<close>

theorem getTravelTimes_sequential:
  "tok \<noteq> [] \<Longrightarrow>
   fst (getTravelTimes be tok orig dest) =
     [Issued (directionsRequest ''walking'' orig dest tok),
      Settled (directionsRequest ''walking'' orig dest tok)
        (be (directionsRequest ''walking'' orig dest tok)),
      Issued (directionsRequest ''cycling'' orig dest tok),
      Settled (directionsRequest ''cycling'' orig dest tok)
        (be (directionsRequest ''cycling'' orig dest tok)),
      Issued (directionsRequest ''driving'' orig dest tok),
      Settled (directionsRequest ''driving'' orig dest tok)
        (be (directionsRequest ''driving'' orig dest tok))]
   \<and> (\<exists>es. snd (getTravelTimes be tok orig dest) = Some es
            \<and> map label es = [''Walk'', ''Cycle'', ''Drive''])"
  by (simp add: getTravelTimes_trace getTravelTimes_results modes_def modeEntry_def
           split: response.splits)

theorem getTravelTimes_sequential_witness:
  "''pk.token'' \<noteq> []
   \<and> map isSettled
       (fst (getTravelTimes sampleBackend ''pk.token'' \<lparr>lat = 1, lng = 2\<rparr> \<lparr>lat = 3, lng = 4\<rparr>)) =
       [False, True, False, True, False, True]"
  using getTravelTimes_sequential
    [of "''pk.token''" sampleBackend "\<lparr>lat = 1, lng = 2\<rparr>" "\<lparr>lat = 3, lng = 4\<rparr>"]
  by (simp add: isSettled_def)

lemma toast_titles: "travelTimesToast ts \<noteq> directionsToast"
  by (simp add: travelTimesToast_def directionsToast_def)

text \<open>
  C10. With an empty token \<^verbatim>\<open>getTravelTimes\<close> returns \<^verbatim>\<open>null\<close> and issues no request, for
  every pair of end points; \<^verbatim>\<open>handleGetDirections\<close> then issues no request either and
  shows no toast of travel times.
\<close>

theorem getTravelTimes_without_token:
  "getTravelTimes be [] orig dest = ([], None)
   \<and> timeRequests (handleGetDirections be [] userLoc mp location) = []
   \<and> routeRequests (handleGetDirections be [] userLoc mp location) = []
   \<and> (\<forall>ts. travelTimesToast ts \<notin> set (toasts (handleGetDirections be [] userLoc mp location)))"
  by (auto simp: getTravelTimes_def handleGetDirections_def drawRoute_def toast_titles
           split: option.splits)

theorem getTravelTimes_without_token_witness:
  "getTravelTimes sampleBackend [] \<lparr>lat = 1, lng = 2\<rparr> \<lparr>lat = 3, lng = 4\<rparr> = ([], None)
   \<and> toasts (handleGetDirections sampleBackend [] (Some \<lparr>lat = 1, lng = 2\<rparr>) (Some routedMap) farNorth)
       = []"
  using getTravelTimes_without_token
    [of sampleBackend "\<lparr>lat = 1, lng = 2\<rparr>" "\<lparr>lat = 3, lng = 4\<rparr>" "Some \<lparr>lat = 1, lng = 2\<rparr>"
        "Some routedMap" farNorth]
  by (simp add: handleGetDirections_def drawRoute_def getTravelTimes_def)

section \<open>The route overlay\<close>

lemma foldl_boundsExtend:
  "foldl boundsExtend b cs =
     \<lparr>sw = (Min (insert (fst (sw b)) (fst ` set cs)), Min (insert (snd (sw b)) (snd ` set cs))),
      ne = (Max (insert (fst (ne b)) (fst ` set cs)), Max (insert (snd (ne b)) (snd ` set cs)))\<rparr>"
proof (induction cs arbitrary: b)
  case Nil
  show ?case by simp
next
  case (Cons c cs)
  have mn: "Min (insert (min x y) S) = Min (insert x (insert y S))"
    if "finite S" for x y :: real and S
    using that by (cases "S = {}") (simp_all add: min.assoc)
  have mx: "Max (insert (max x y) S) = Max (insert x (insert y S))"
    if "finite S" for x y :: real and S
    using that by (cases "S = {}") (simp_all add: max.assoc)
  show ?case
    by (simp add: Cons.IH) (simp add: boundsExtend_def mn mx)
qed

text \<open>The box of a route is the smallest one that holds all its coordinates.\<close>

lemma routeBounds_box:
  "cs \<noteq> [] \<Longrightarrow>
   routeBounds cs =
     Some \<lparr>sw = (Min (fst ` set cs), Min (snd ` set cs)),
           ne = (Max (fst ` set cs), Max (snd ` set cs))\<rparr>"
  by (cases cs) (simp_all add: routeBounds_def foldl_boundsExtend boundsExtend_def insert_absorb)

lemma replaceRoute_ops:
  "snd (replaceRoute rt m) =
     (if layers m ''route'' \<noteq> None then [RemoveLayer ''route''] else []) @
     (if sources m ''route'' \<noteq> None then [RemoveSource ''route''] else []) @
     [AddSource ''route'' (geometry rt), AddLayer ''route'' routeLayer,
      FitBounds (routeBounds (geometry rt)) 50]"
  by (simp add: replaceRoute_def Let_def)

lemma replaceRoute_state:
  "fst (replaceRoute rt m) =
     m\<lparr>layers := (layers m)(''route'' \<mapsto> routeLayer),
       sources := (sources m)(''route'' \<mapsto> geometry rt)\<rparr>"
  by (simp add: replaceRoute_def Let_def)

text \<open>
  C8. When \<^verbatim>\<open>drawRoute\<close> succeeds (a map, a token, an answer with a route), the calls on
  the map are, in this order: the removal of the layer \<^verbatim>\<open>route\<close> if there is one, the
  removal of the source \<^verbatim>\<open>route\<close> if there is one, one \<^verbatim>\<open>addSource\<close> and one \<^verbatim>\<open>addLayer\<close>
  for the new route, and one \<^verbatim>\<open>fitBounds\<close> with padding 50 on the box of the route, which
  is the smallest box around its coordinates. Afterwards the layer and the source
  \<^verbatim>\<open>route\<close> are the new ones, every other layer and source is as before, and the markers
  on the map are unchanged.
\<close>

theorem drawRoute_replaces_overlay:
  assumes tok: "tok \<noteq> []"
    and ok: "be (directionsRequest ''driving'' orig dest tok) = Routes rt"
  shows "\<exists>m'. drawRoute be tok (Some m) orig dest =
           (Some m',
            [Issued (directionsRequest ''driving'' orig dest tok),
             Settled (directionsRequest ''driving'' orig dest tok) (Routes rt)],
            (if layers m ''route'' \<noteq> None then [RemoveLayer ''route''] else []) @
            (if sources m ''route'' \<noteq> None then [RemoveSource ''route''] else []) @
            [AddSource ''route'' (geometry rt), AddLayer ''route'' routeLayer,
             FitBounds (routeBounds (geometry rt)) 50])
         \<and> layers m' = (layers m)(''route'' \<mapsto> routeLayer)
         \<and> sources m' = (sources m)(''route'' \<mapsto> geometry rt)
         \<and> attached m' = attached m
         \<and> (geometry rt \<noteq> [] \<longrightarrow>
              routeBounds (geometry rt) =
                Some \<lparr>sw = (Min (fst ` set (geometry rt)), Min (snd ` set (geometry rt))),
                      ne = (Max (fst ` set (geometry rt)), Max (snd ` set (geometry rt)))\<rparr>)"
proof -
  have "drawRoute be tok (Some m) orig dest =
          (Some (fst (replaceRoute rt m)),
           [Issued (directionsRequest ''driving'' orig dest tok),
            Settled (directionsRequest ''driving'' orig dest tok) (Routes rt)],
           snd (replaceRoute rt m))"
    using tok ok by (simp add: drawRoute_def Let_def split_def)
  then show ?thesis
    by (simp add: replaceRoute_ops replaceRoute_state routeBounds_box)
qed

text \<open>
  C8 on a map that already shows a route: layer and source are removed first, then the
  sample route is added and the view is fit to its box.
\<close>

theorem drawRoute_replaces_overlay_witness:
  "snd (snd (drawRoute sampleBackend ''pk.token'' (Some routedMap)
               \<lparr>lat = 1, lng = 2\<rparr> \<lparr>lat = 3, lng = 4\<rparr>)) =
     [RemoveLayer ''route'', RemoveSource ''route'',
      AddSource ''route'' [(0, 0), (2, 1), (1, 3)], AddLayer ''route'' routeLayer,
      FitBounds (Some \<lparr>sw = (0, 0), ne = (2, 3)\<rparr>) 50]"
proof -
  have tok: "''pk.token'' \<noteq> []" by simp
  have ok: "sampleBackend (directionsRequest ''driving'' \<lparr>lat = 1, lng = 2\<rparr> \<lparr>lat = 3, lng = 4\<rparr> ''pk.token'')
              = Routes sampleRoute"
    by (simp add: sampleBackend_def directionsRequest_def)
  have box: "routeBounds [(0, 0), (2, 1), (1, 3)] = Some \<lparr>sw = (0, 0), ne = (2, 3)\<rparr>"
    by (simp add: routeBounds_def boundsExtend_def)
  obtain m' where
    "drawRoute sampleBackend ''pk.token'' (Some routedMap) \<lparr>lat = 1, lng = 2\<rparr> \<lparr>lat = 3, lng = 4\<rparr> =
       (Some m',
        [Issued (directionsRequest ''driving'' \<lparr>lat = 1, lng = 2\<rparr> \<lparr>lat = 3, lng = 4\<rparr> ''pk.token''),
         Settled (directionsRequest ''driving'' \<lparr>lat = 1, lng = 2\<rparr> \<lparr>lat = 3, lng = 4\<rparr> ''pk.token'')
           (Routes sampleRoute)],
        (if layers routedMap ''route'' \<noteq> None then [RemoveLayer ''route''] else []) @
        (if sources routedMap ''route'' \<noteq> None then [RemoveSource ''route''] else []) @
        [AddSource ''route'' (geometry sampleRoute), AddLayer ''route'' routeLayer,
         FitBounds (routeBounds (geometry sampleRoute)) 50])"
    using drawRoute_replaces_overlay
      [of "''pk.token''" sampleBackend "\<lparr>lat = 1, lng = 2\<rparr>" "\<lparr>lat = 3, lng = 4\<rparr>" sampleRoute
          routedMap, OF tok ok]
    by blast
  then show ?thesis
    by (simp add: routedMap_def sampleRoute_def box)
qed

section \<open>Markers on a viewport change\<close>

lemma newMarkers_handles:
  "mk \<in> set (newMarkers isMobile h ns) \<Longrightarrow> h \<le> mkHandle mk \<and> mkHandle mk < h + length ns"
proof (induction ns arbitrary: h)
  case Nil
  then show ?case by simp
next
  case (Cons n ns)
  from Cons.prems have "mk = markerOf isMobile h n \<or> mk \<in> set (newMarkers isMobile (Suc h) ns)"
    by simp
  then show ?case
  proof
    assume "mk = markerOf isMobile h n"
    then show ?thesis by (simp add: markerOf_def split: node.splits)
  next
    assume "mk \<in> set (newMarkers isMobile (Suc h) ns)"
    then have "Suc h \<le> mkHandle mk \<and> mkHandle mk < Suc h + length ns" by (rule Cons.IH)
    then show ?thesis by simp
  qed
qed

lemma newMarkers_nodes:
  "n \<in> set ns \<Longrightarrow> \<exists>k. h \<le> k \<and> markerOf isMobile k n \<in> set (newMarkers isMobile h ns)"
proof (induction ns arbitrary: h)
  case Nil
  then show ?case by simp
next
  case (Cons a ns)
  show ?case
  proof (cases "n = a")
    case True
    then have "h \<le> h \<and> markerOf isMobile h n \<in> set (newMarkers isMobile h (a # ns))" by simp
    then show ?thesis by blast
  next
    case False
    with Cons.prems have "n \<in> set ns" by simp
    then obtain k where "Suc h \<le> k" and "markerOf isMobile k n \<in> set (newMarkers isMobile (Suc h) ns)"
      using Cons.IH by blast
    then have "h \<le> k \<and> markerOf isMobile k n \<in> set (newMarkers isMobile h (a # ns))" by simp
    then show ?thesis by blast
  qed
qed

lemma length_newMarkers: "length (newMarkers isMobile h ns) = length ns"
  by (induction ns arbitrary: h) simp_all

lemma updateClusters_run:
  "mapCurrent s = Some m \<Longrightarrow> mapBounds \<noteq> [] \<Longrightarrow>
   updateClusters (Some getClusters) mapBounds zoom isMobile s =
     (\<lparr>mapCurrent =
         Some (m\<lparr>attached := detachAll (markersRef s) (attached m)
                    @ newMarkers isMobile (nextHandle s) (getClusters mapBounds (mathRound zoom))\<rparr>),
       markersRef = newMarkers isMobile (nextHandle s) (getClusters mapBounds (mathRound zoom)),
       clusters = getClusters mapBounds (mathRound zoom),
       nextHandle = nextHandle s + length (getClusters mapBounds (mathRound zoom))\<rparr>,
      map RemoveMarker (markersRef s) @
      map AddMarker (newMarkers isMobile (nextHandle s) (getClusters mapBounds (mathRound zoom))))"
  by (simp add: updateClusters_def Let_def)

text \<open>
  C3, as stated, fails: the effect removes every marker it holds and creates a marker
  for every feature of the new query. The library marker (object 0) is shown and the
  library is again in the new set, under the same key; the marker is removed and a new
  one (object 1) is added for it.
\<close>

theorem updateClusters_shared_key_counterexample:
  "markerKeyOf (markerOf False 0 mainLibrary) = nodeKey mainLibrary
   \<and> markersRef libraryShown = [markerOf False 0 mainLibrary]
   \<and> snd (updateClusters (Some (fixedIndex [mainLibrary])) [0, 0, 1, 1] 16 False libraryShown) =
       [RemoveMarker (markerOf False 0 mainLibrary), AddMarker (markerOf False 1 mainLibrary)]"
  by (simp add: updateClusters_def libraryShown_def fixedIndex_def Let_def markerKeyOf_def
        markerOf_def mainLibrary_def)

text \<open>
  C3, amended. On every reconciliation (a map, an index and bounds being there, and the
  handles of the markers held being ones already given out) every previously rendered
  marker is removed and a new marker is created for every feature of the newly computed
  set, in this order; the markers held afterwards are exactly the new ones, and none of
  them is one of the previous marker objects. A marker whose key is in both sets is
  therefore removed and created again, not updated in place.
\<close>

theorem updateClusters_recreates_all:
  assumes m: "mapCurrent s = Some m" and b: "mapBounds \<noteq> []"
    and inv: "\<forall>old \<in> set (markersRef s). mkHandle old < nextHandle s"
  shows "snd (updateClusters (Some getClusters) mapBounds zoom isMobile s) =
           map RemoveMarker (markersRef s) @
           map AddMarker (markersRef (fst (updateClusters (Some getClusters) mapBounds zoom isMobile s)))
         \<and> map mkNode (markersRef (fst (updateClusters (Some getClusters) mapBounds zoom isMobile s))) =
             getClusters mapBounds (mathRound zoom)
         \<and> (\<forall>old \<in> set (markersRef s).
              \<forall>new \<in> set (markersRef (fst (updateClusters (Some getClusters) mapBounds zoom isMobile s))).
                mkHandle new \<noteq> mkHandle old)
         \<and> (\<forall>old \<in> set (markersRef s). \<forall>n \<in> set (getClusters mapBounds (mathRound zoom)).
               markerKeyOf old = nodeKey n \<longrightarrow>
                 RemoveMarker old
                   \<in> set (snd (updateClusters (Some getClusters) mapBounds zoom isMobile s))
                 \<and> (\<exists>k. nextHandle s \<le> k \<and> AddMarker (markerOf isMobile k n)
                       \<in> set (snd (updateClusters (Some getClusters) mapBounds zoom isMobile s))))"
proof -
  let ?found = "getClusters mapBounds (mathRound zoom)"
  let ?new = "newMarkers isMobile (nextHandle s) ?found"
  have nodes: "map mkNode (newMarkers isMobile h ns) = ns" for h ns
    by (induction ns arbitrary: h) (simp_all add: markerOf_def split: node.splits)
  have fresh: "mkHandle new \<noteq> mkHandle old"
    if "old \<in> set (markersRef s)" and "new \<in> set ?new" for old new
  proof -
    from inv that(1) have "mkHandle old < nextHandle s" by (rule bspec)
    moreover from that(2) have "nextHandle s \<le> mkHandle new"
      using newMarkers_handles by blast
    ultimately show ?thesis by simp
  qed
  have ops: "snd (updateClusters (Some getClusters) mapBounds zoom isMobile s) =
               map RemoveMarker (markersRef s) @ map AddMarker ?new"
    by (simp add: updateClusters_run [OF m b])
  have held: "markersRef (fst (updateClusters (Some getClusters) mapBounds zoom isMobile s)) = ?new"
    by (simp add: updateClusters_run [OF m b])
  have added: "\<exists>k. nextHandle s \<le> k \<and> AddMarker (markerOf isMobile k n)
                 \<in> set (map RemoveMarker (markersRef s) @ map AddMarker ?new)"
    if "n \<in> set ?found" for n
  proof -
    from that obtain k where "nextHandle s \<le> k" and "markerOf isMobile k n \<in> set ?new"
      using newMarkers_nodes by blast
    then have "nextHandle s \<le> k \<and> AddMarker (markerOf isMobile k n)
                 \<in> set (map RemoveMarker (markersRef s) @ map AddMarker ?new)"
      by simp
    then show ?thesis by blast
  qed
  have removed: "RemoveMarker old \<in> set (map RemoveMarker (markersRef s) @ map AddMarker ?new)"
    if "old \<in> set (markersRef s)" for old
    using that by simp
  show ?thesis
    unfolding ops held
    using fresh added removed by (simp add: nodes)
qed

text \<open>
  C3 on the shown library marker, with a query that finds the library again (desktop
  sizes): the new marker is not the old object.
\<close>

theorem updateClusters_recreates_all_witness:
  "mapCurrent libraryShown \<noteq> None \<and> [0, 0, 1, 1 :: num] \<noteq> []
   \<and> map mkHandle (markersRef libraryShown) = [0] \<and> nextHandle libraryShown = 1
   \<and> map mkHandle (markersRef (fst (updateClusters (Some (fixedIndex [mainLibrary])) [0, 0, 1, 1] 16
                                      False libraryShown))) = [1]
   \<and> snd (updateClusters (Some (fixedIndex [mainLibrary])) [0, 0, 1, 1] 16 False libraryShown) =
       [RemoveMarker (markerOf False 0 mainLibrary), AddMarker (markerOf False 1 mainLibrary)]"
proof -
  have m: "mapCurrent libraryShown =
             Some \<lparr>layers = Map.empty, sources = Map.empty, attached = [markerOf False 0 mainLibrary]\<rparr>"
    by (simp add: libraryShown_def)
  have b: "[0, 0, 1, 1 :: num] \<noteq> []" by simp
  have inv: "\<forall>old \<in> set (markersRef libraryShown). mkHandle old < nextHandle libraryShown"
    by (simp add: libraryShown_def markerOf_def mainLibrary_def)
  have run: "markersRef (fst (updateClusters (Some (fixedIndex [mainLibrary])) [0, 0, 1, 1] 16
                                      False libraryShown)) = [markerOf False 1 mainLibrary]"
    by (simp add: updateClusters_def libraryShown_def fixedIndex_def Let_def)
  from updateClusters_recreates_all [OF m b inv, of "fixedIndex [mainLibrary]" 16 False]
  have "snd (updateClusters (Some (fixedIndex [mainLibrary])) [0, 0, 1, 1] 16 False libraryShown) =
          map RemoveMarker (markersRef libraryShown) @
          map AddMarker (markersRef (fst (updateClusters (Some (fixedIndex [mainLibrary])) [0, 0, 1, 1] 16
             False libraryShown)))"
    by (rule conjunct1)
  then show ?thesis
    by (simp add: run) (simp add: libraryShown_def markerOf_def mainLibrary_def)
qed

section \<open>The index and malformed coordinates\<close>




section \<open>The shared location\<close>

lemma parseFloat_empty: "parseFloat [] = NaN"
  by (simp add: parseFloat_def)

text \<open>The shared location exists exactly when both parameters are there and not empty.\<close>

lemma sharedFromUrl_Some:
  "sharedFromUrl ps \<noteq> None \<longleftrightarrow>
     (\<exists>a b. paramsGet ps ''sharedLat'' = Some a \<and> paramsGet ps ''sharedLng'' = Some b
            \<and> a \<noteq> [] \<and> b \<noteq> [])"
  by (auto simp: sharedFromUrl_def split: option.splits)

text \<open>
  C9, as stated, fails: the effect tests only that both parameters are there and not
  empty. With \<^verbatim>\<open>sharedLat=abc\<close> the shared location is created, its latitude \<^verbatim>\<open>NaN\<close>.
\<close>

theorem sharedFromUrl_non_numeric_counterexample:
  "\<not> isFinite (parseFloat ''abc'')
   \<and> sharedFromUrl [(''sharedLat'', ''abc''), (''sharedLng'', ''-73.9851'')] =
       Some \<lparr>lat = NaN, lng = Finite (- 739851 / 10000)\<rparr>"
  by (simp add: sharedFromUrl_def paramsGet_def parseFloat_def isWhite_def isDigit_def
        digitsVal_def exponentPart_def isFinite_def)

text \<open>
  C9, amended. On load, when both \<^verbatim>\<open>sharedLat\<close> and \<^verbatim>\<open>sharedLng\<close> are present and parse as
  finite numbers, the shared location is created with these two numbers; when either
  parameter is missing or empty, no shared location is created and no shared-location
  marker is rendered.
\<close>

theorem sharedFromUrl_created:
  "(paramsGet ps ''sharedLat'' = Some a \<and> paramsGet ps ''sharedLng'' = Some b
      \<and> parseFloat a = Finite x \<and> parseFloat b = Finite y
      \<longrightarrow> sharedFromUrl ps = Some \<lparr>lat = Finite x, lng = Finite y\<rparr>)
   \<and> (paramsGet ps ''sharedLat'' \<in> {None, Some []} \<or> paramsGet ps ''sharedLng'' \<in> {None, Some []}
      \<longrightarrow> sharedFromUrl ps = None
          \<and> filter isSharedMarker (showShared ready (sharedFromUrl ps) userLoc) = [])"
proof -
  have "a \<noteq> []" if "parseFloat a = Finite x" for a x
    using that parseFloat_empty by auto
  then show ?thesis
    by (auto simp: sharedFromUrl_def showShared_def split: option.splits)
qed

text \<open>
  C9 on the link of the specification's scenario, and on a link without
  \<^verbatim>\<open>sharedLng\<close>.
\<close>

theorem sharedFromUrl_created_witness:
  "sharedFromUrl [(''sharedLat'', ''40.7589''), (''sharedLng'', ''-73.9851'')] =
     Some \<lparr>lat = Finite (407589 / 10000), lng = Finite (- 739851 / 10000)\<rparr>
   \<and> sharedFromUrl [(''sharedLat'', ''40.7589'')] = None"
proof -
  have 1: "parseFloat ''40.7589'' = Finite (407589 / 10000)"
    by (simp add: parseFloat_def isWhite_def isDigit_def digitsVal_def exponentPart_def)
  have 2: "parseFloat ''-73.9851'' = Finite (- 739851 / 10000)"
    by (simp add: parseFloat_def isWhite_def isDigit_def digitsVal_def exponentPart_def)
  show ?thesis
    using sharedFromUrl_created
        [of "[(''sharedLat'', ''40.7589''), (''sharedLng'', ''-73.9851'')]"
            "''40.7589''" "''-73.9851''" "407589 / 10000" "- 739851 / 10000"]
      sharedFromUrl_created [of "[(''sharedLat'', ''40.7589'')]"]
      1 2
    by (simp add: paramsGet_def)
qed

end
